theory Spec2Isabelle
  imports Main
begin

section \<open>Python strings\<close>

text \<open>
  A Python \<open>str\<close> is a sequence of Unicode code points. The client uses the marks
  U+2705 and U+274C in its messages, so a string is modelled as the list of its code
  points; \<open>lit\<close> embeds an ASCII literal.
\<close>

type_synonym pystr = "nat list"

definition lit :: "string \<Rightarrow> pystr" where
  "lit s = map of_char s"

definition CHECK_MARK :: nat where
  "CHECK_MARK = 9989"

definition CROSS_MARK :: nat where
  "CROSS_MARK = 10060"

text \<open>
  \<open>str.strip()\<close> without argument removes leading and trailing characters for which
  \<open>str.isspace\<close> holds: U+0009..U+000D, U+001C..U+001F, U+0020, U+0085, U+00A0, U+1680,
  U+2000..U+200A, U+2028, U+2029, U+202F, U+205F and U+3000.
\<close>

definition isspace :: "nat \<Rightarrow> bool" where
  "isspace c \<longleftrightarrow>
     (9 \<le> c \<and> c \<le> 13) \<or> (28 \<le> c \<and> c \<le> 32) \<or> c = 133 \<or> c = 160 \<or> c = 5760 \<or>
     (8192 \<le> c \<and> c \<le> 8202) \<or> c = 8232 \<or> c = 8233 \<or> c = 8239 \<or> c = 8287 \<or> c = 12288"

definition lstrip :: "pystr \<Rightarrow> pystr" where
  "lstrip s = dropWhile isspace s"

definition rstrip :: "pystr \<Rightarrow> pystr" where
  "rstrip s = rev (dropWhile isspace (rev s))"

definition strip :: "pystr \<Rightarrow> pystr" where
  "strip s = rstrip (lstrip s)"

definition startswith :: "pystr \<Rightarrow> pystr \<Rightarrow> bool" where
  "startswith s p \<longleftrightarrow> take (length p) s = p"

section \<open>The settings files\<close>

text \<open>
  \<open>BACKEND_FILE\<close> and \<open>LICENSE_FILE\<close> are the two text files under \<open>.secrets\<close>. The
  state of the client is the text each file holds (\<open>None\<close> when the file does not
  exist) and the trace of the effects performed so far. \<open>Path.read_text\<close> opens the
  file in text mode with universal newlines, so a carriage return, alone or followed by
  a line feed, is read as one line feed.
\<close>

datatype file_id = BACKEND_FILE | LICENSE_FILE

datatype exc =
    GrError pystr
  | OSError pystr
  | RequestException pystr
  | HTTPError int
  | JSONDecodeError pystr
  | KeyError pystr
  | TypeError
  | AttributeError
  | IllegalCharacterError
  | UnicodeEncodeError
  | ValueError
  | OverflowError

text \<open>
  A decoded JSON number is an \<open>int\<close> or a \<open>float\<close>. A float is an IEEE double, named
  here by its 64 bits; arithmetic on doubles is left to the runtime.
\<close>

datatype pyfloat = Float64 nat

datatype json =
    JNull
  | JBool bool
  | JInt int
  | JFloat pyfloat
  | JStr pystr
  | JArr "json list"
  | JObj "(pystr \<times> json) list"

datatype body =
    JsonBody "(pystr \<times> json) list"
  | Multipart "(pystr \<times> pystr) list" "(pystr \<times> pystr \<times> nat list \<times> pystr) list"

datatype request = Request (req_url: pystr) (req_body: body) (req_timeout: nat)

datatype event =
    Read file_id
  | Write file_id pystr
  | Open pystr
  | Post request

record world =
  backend_file :: "pystr option"
  license_file :: "pystr option"
  log :: "event list"

fun universal_newlines :: "pystr \<Rightarrow> pystr" where
  "universal_newlines [] = []"
| "universal_newlines [c] = (if c = 13 then [10] else [c])"
| "universal_newlines (c # d # s) =
     (if c = 13 \<and> d = 10 then 10 # universal_newlines s
      else if c = 13 then 10 # universal_newlines (d # s)
      else c # universal_newlines (d # s))"

text \<open>
  \<open>Path.write_text(data, encoding="utf-8")\<close> opens the file for writing, which empties
  it, then encodes the whole text and writes it. A text that holds a surrogate code
  point (U+D800..U+DFFF) cannot be encoded: \<open>UnicodeEncodeError\<close> is raised and the file
  stays empty. Otherwise the text is stored as it is (\<open>os.linesep\<close> is taken to be a line
  feed).
\<close>

definition surrogate :: "nat \<Rightarrow> bool" where
  "surrogate c \<longleftrightarrow> 55296 \<le> c \<and> c \<le> 57343"

definition set_file :: "file_id \<Rightarrow> pystr \<Rightarrow> world \<Rightarrow> world" where
  "set_file f s w =
     (case f of
        BACKEND_FILE \<Rightarrow> w\<lparr>backend_file := Some s\<rparr>
      | LICENSE_FILE \<Rightarrow> w\<lparr>license_file := Some s\<rparr>)"

definition write_text :: "file_id \<Rightarrow> pystr \<Rightarrow> world \<Rightarrow> (exc + unit) \<times> world" where
  "write_text f s w =
     (if list_ex surrogate s
      then (Inl UnicodeEncodeError, (set_file f [] w)\<lparr>log := log w @ [Write f []]\<rparr>)
      else (Inr (), (set_file f s w)\<lparr>log := log w @ [Write f s]\<rparr>))"

definition save_backend :: "pystr \<Rightarrow> world \<Rightarrow> (exc + pystr) \<times> world" where
  "save_backend url w =
     (if \<not> startswith url (lit ''http'')
      then (Inl (GrError (lit ''Enter a full URL, e.g., http://localhost:8000'')), w)
      else (case write_text BACKEND_FILE (strip url) w of
              (Inl x, w') \<Rightarrow> (Inl x, w')
            | (Inr _, w') \<Rightarrow> (Inr (CHECK_MARK # lit '' Saved''), w')))"

definition save_license :: "pystr \<Rightarrow> world \<Rightarrow> (exc + pystr) \<times> world" where
  "save_license key w =
     (if length (strip key) < 8
      then (Inl (GrError (lit ''License looks too short.'')), w)
      else (case write_text LICENSE_FILE (strip key) w of
              (Inl x, w') \<Rightarrow> (Inl x, w')
            | (Inr _, w') \<Rightarrow> (Inr (CHECK_MARK # lit '' Saved''), w')))"

definition get_backend :: "world \<Rightarrow> pystr \<times> world" where
  "get_backend w =
     ((case backend_file w of
         Some t \<Rightarrow> strip (universal_newlines t)
       | None \<Rightarrow> lit ''http://localhost:8000''),
      w\<lparr>log := log w @ [Read BACKEND_FILE]\<rparr>)"

definition get_license :: "world \<Rightarrow> pystr \<times> world" where
  "get_license w =
     ((case license_file w of
         Some t \<Rightarrow> strip (universal_newlines t)
       | None \<Rightarrow> []),
      w\<lparr>log := log w @ [Read LICENSE_FILE]\<rparr>)"

section \<open>Values decoded from JSON, formatting\<close>

text \<open>
  \<open>str_int\<close> gives the decimal digits of an integer, with a minus sign for a negative
  number. \<open>str\<close> on an integer (\<open>py_str_int\<close>) raises \<open>ValueError\<close> when the number has
  more than 4300 digits. The JSON decoder is under the same limit, so a decoded integer
  has at most 4300 digits; a sum of decoded integers may have more.
\<close>

function str_nat :: "nat \<Rightarrow> pystr" where
  "str_nat n = (if n < 10 then [48 + n] else str_nat (n div 10) @ [48 + n mod 10])"
  by pat_completeness auto
termination
  by (relation "measure id") auto

declare str_nat.simps [simp del]

definition str_int :: "int \<Rightarrow> pystr" where
  "str_int i = (if i < 0 then 45 # str_nat (nat (- i)) else str_nat (nat i))"

definition MAX_STR_DIGITS :: nat where
  "MAX_STR_DIGITS = 4300"

definition py_str_int :: "int \<Rightarrow> exc + pystr" where
  "py_str_int i =
     (if MAX_STR_DIGITS < length (str_nat (nat \<bar>i\<bar>)) then Inl ValueError
      else Inr (str_int i))"

fun join :: "pystr \<Rightarrow> pystr list \<Rightarrow> pystr" where
  "join sep [] = []"
| "join sep [x] = x"
| "join sep (x # y # ys) = x @ sep @ join sep (y # ys)"

text \<open>
  \<open>getitem d k\<close> is \<open>d[k]\<close> for a string key: a dict raises \<open>KeyError\<close> on a missing key,
  every other decoded value raises \<open>TypeError\<close>. \<open>get_default d k v\<close> is \<open>d.get(k, v)\<close>,
  which only a dict has. A \<open>JObj\<close> lists the items of the dict in insertion order.
\<close>

definition getitem :: "json \<Rightarrow> pystr \<Rightarrow> exc + json" where
  "getitem d k =
     (case d of
        JObj kvs \<Rightarrow> (case map_of kvs k of None \<Rightarrow> Inl (KeyError k) | Some v \<Rightarrow> Inr v)
      | _ \<Rightarrow> Inl TypeError)"

definition get_default :: "json \<Rightarrow> pystr \<Rightarrow> json \<Rightarrow> exc + json" where
  "get_default d k v =
     (case d of
        JObj kvs \<Rightarrow> (case map_of kvs k of None \<Rightarrow> Inr v | Some x \<Rightarrow> Inr x)
      | _ \<Rightarrow> Inl AttributeError)"

text \<open>
  \<open>sep.join(v)\<close> iterates over \<open>v\<close>: the items of a list, the characters of a string,
  the keys of a dict; anything else is not iterable. Every item must be a string.
\<close>

definition iter_json :: "json \<Rightarrow> exc + json list" where
  "iter_json v =
     (case v of
        JArr xs \<Rightarrow> Inr xs
      | JStr s \<Rightarrow> Inr (map (\<lambda>c. JStr [c]) s)
      | JObj kvs \<Rightarrow> Inr (map (\<lambda>kv. JStr (fst kv)) kvs)
      | _ \<Rightarrow> Inl TypeError)"

fun str_items :: "json list \<Rightarrow> exc + pystr list" where
  "str_items [] = Inr []"
| "str_items (JStr s # xs) = (case str_items xs of Inl e \<Rightarrow> Inl e | Inr ss \<Rightarrow> Inr (s # ss))"
| "str_items (_ # xs) = Inl TypeError"

definition join_json :: "pystr \<Rightarrow> json \<Rightarrow> exc + pystr" where
  "join_json sep v =
     (case iter_json v of
        Inl e \<Rightarrow> Inl e
      | Inr xs \<Rightarrow> (case str_items xs of Inl e \<Rightarrow> Inl e | Inr ss \<Rightarrow> Inr (join sep ss)))"

section \<open>The backend and the runtime\<close>

text \<open>
  The backend is reached through \<open>requests.post\<close> only. Its behaviour is a parameter:
  \<open>post\<close> maps the trace so far and the request to an exception raised by the call or
  to the response. A response is read through \<open>status_code\<close>, \<open>text\<close> and \<open>json()\<close>,
  the last of which may raise. \<open>disk\<close> is \<open>open(path, "rb")\<close> followed by reading the
  file. \<open>exc_str\<close> is \<open>str\<close> on an exception and \<open>repr\<close> the text of a float, a list
  or a dict; \<open>float_add\<close> is the sum of two doubles and \<open>float_of_int\<close> the conversion
  of an integer to a double, which raises \<open>OverflowError\<close> when the integer is too
  large. These are given by the Python runtime and the libraries.
\<close>

record response =
  status_code :: int
  resp_text :: pystr
  resp_json :: "exc + json"

record env =
  post :: "event list \<Rightarrow> request \<Rightarrow> exc + response"
  disk :: "pystr \<Rightarrow> exc + nat list"
  exc_str :: "exc \<Rightarrow> pystr"
  repr :: "json \<Rightarrow> pystr"
  float_add :: "pyfloat \<Rightarrow> pyfloat \<Rightarrow> pyfloat"
  float_of_int :: "int \<Rightarrow> exc + pyfloat"

definition format_json :: "env \<Rightarrow> json \<Rightarrow> pystr" where
  "format_json e v =
     (case v of
        JStr s \<Rightarrow> s
      | JInt n \<Rightarrow> str_int n
      | JBool b \<Rightarrow> (if b then lit ''True'' else lit ''False'')
      | JNull \<Rightarrow> lit ''None''
      | _ \<Rightarrow> repr e v)"

text \<open>
  The running total of the upload loop is an \<open>int\<close> until a float is added to it.
  \<open>add_chunks t v\<close> is \<open>t + v\<close>: \<open>bool\<close> is a subclass of \<open>int\<close>, an integer added to a
  float is converted first, and any other value raises \<open>TypeError\<close>. \<open>format_num\<close> is the
  text of the total in the final message.
\<close>

datatype pynum = PyInt int | PyFloat pyfloat

definition add_float :: "env \<Rightarrow> int \<Rightarrow> pyfloat \<Rightarrow> exc + pynum" where
  "add_float e n x =
     (case float_of_int e n of
        Inl err \<Rightarrow> Inl err
      | Inr y \<Rightarrow> Inr (PyFloat (float_add e y x)))"

definition add_chunks :: "env \<Rightarrow> pynum \<Rightarrow> json \<Rightarrow> exc + pynum" where
  "add_chunks e t v =
     (case t of
        PyInt a \<Rightarrow>
          (case v of
             JInt n \<Rightarrow> Inr (PyInt (a + n))
           | JBool b \<Rightarrow> Inr (PyInt (a + (if b then 1 else 0)))
           | JFloat x \<Rightarrow> add_float e a x
           | _ \<Rightarrow> Inl TypeError)
      | PyFloat y \<Rightarrow>
          (case v of
             JInt n \<Rightarrow>
               (case float_of_int e n of
                  Inl err \<Rightarrow> Inl err
                | Inr x \<Rightarrow> Inr (PyFloat (float_add e y x)))
           | JBool b \<Rightarrow>
               (case float_of_int e (if b then 1 else 0) of
                  Inl err \<Rightarrow> Inl err
                | Inr x \<Rightarrow> Inr (PyFloat (float_add e y x)))
           | JFloat x \<Rightarrow> Inr (PyFloat (float_add e y x))
           | _ \<Rightarrow> Inl TypeError))"

definition format_num :: "env \<Rightarrow> pynum \<Rightarrow> exc + pystr" where
  "format_num e t =
     (case t of
        PyInt a \<Rightarrow> py_str_int a
      | PyFloat x \<Rightarrow> Inr (repr e (JFloat x)))"

definition http_post :: "env \<Rightarrow> request \<Rightarrow> world \<Rightarrow> (exc + response) \<times> world" where
  "http_post e req w = (post e (log w) req, w\<lparr>log := log w @ [Post req]\<rparr>)"

definition py_open :: "env \<Rightarrow> pystr \<Rightarrow> world \<Rightarrow> (exc + nat list) \<times> world" where
  "py_open e path w = (disk e path, w\<lparr>log := log w @ [Open path]\<rparr>)"

text \<open>\<open>Response.raise_for_status\<close> raises \<open>HTTPError\<close> for a status from 400 to 599.\<close>

definition raise_for_status :: "response \<Rightarrow> exc + unit" where
  "raise_for_status r =
     (if 400 \<le> status_code r \<and> status_code r < 600
      then Inl (HTTPError (status_code r)) else Inr ())"

section \<open>Backend client\<close>

text \<open>
  \<open>check_license_try\<close> is the body of the \<open>try\<close> block of \<open>check_license\<close> from the
  outcome of \<open>requests.post\<close> on; \<open>check_license\<close> adds the handler, which turns every
  exception into a message.
\<close>

definition check_license_try :: "env \<Rightarrow> exc + response \<Rightarrow> exc + pystr" where
  "check_license_try e res =
     (case res of
        Inl x \<Rightarrow> Inl x
      | Inr resp \<Rightarrow>
          (case raise_for_status resp of
             Inl x \<Rightarrow> Inl x
           | Inr _ \<Rightarrow>
               (case resp_json resp of
                  Inl x \<Rightarrow> Inl x
                | Inr data \<Rightarrow>
                    (case getitem data (lit ''plan'') of
                       Inl x \<Rightarrow> Inl x
                     | Inr plan \<Rightarrow>
                         (case getitem data (lit ''quota_remaining'') of
                            Inl x \<Rightarrow> Inl x
                          | Inr quota \<Rightarrow>
                              Inr (CHECK_MARK # lit '' Plan: '' @ format_json e plan @
                                   lit '' | Remaining: '' @ format_json e quota))))))"

definition check_license :: "env \<Rightarrow> world \<Rightarrow> (exc + pystr) \<times> world" where
  "check_license e w =
     (let (b, w1) = get_backend w;
          url = b @ lit ''/api/license/verify'';
          (key, w2) = get_license w1
      in if key = [] then (Inr (CROSS_MARK # lit '' No license saved''), w2)
         else
           (let (res, w3) = http_post e (Request url (JsonBody [(lit ''key'', JStr key)]) 15) w2
            in (case check_license_try e res of
                  Inl x \<Rightarrow> Inr (CROSS_MARK # 32 # exc_str e x)
                | Inr s \<Rightarrow> Inr s,
                w3)))"

text \<open>
  A file handed over by the upload widget has a \<open>name\<close>, the path of its copy on disk.
  \<open>path_name\<close> is \<open>Path(p).name\<close>: the last component of the path that is neither empty
  nor a single dot, with the slash as separator.
\<close>

datatype gfile = GFile (name: pystr)

fun split_sep :: "nat \<Rightarrow> pystr \<Rightarrow> pystr list" where
  "split_sep sep [] = [[]]"
| "split_sep sep (c # s) =
     (if c = sep then [] # split_sep sep s
      else (case split_sep sep s of [] \<Rightarrow> [[c]] | p # ps \<Rightarrow> (c # p) # ps))"

definition path_name :: "pystr \<Rightarrow> pystr" where
  "path_name p =
     (case rev (filter (\<lambda>x. x \<noteq> [] \<and> x \<noteq> lit ''.'') (split_sep 47 p)) of
        [] \<Rightarrow> []
      | x # _ \<Rightarrow> x)"

definition upload_request :: "pystr \<Rightarrow> pystr \<Rightarrow> gfile \<Rightarrow> nat list \<Rightarrow> request" where
  "upload_request url key f fh =
     Request url
       (Multipart [(lit ''key'', key)]
          [(lit ''file'', path_name (name f), fh, lit ''application/octet-stream'')])
       120"

fun upload_loop ::
  "env \<Rightarrow> pystr \<Rightarrow> pystr \<Rightarrow> pynum \<Rightarrow> gfile list \<Rightarrow> world \<Rightarrow> (exc + pystr) \<times> world" where
  "upload_loop e url key total_chunks [] w =
     (case format_num e total_chunks of
        Inl x \<Rightarrow> (Inl x, w)
      | Inr s \<Rightarrow> (Inr (CHECK_MARK # lit '' Uploaded. '' @ s @ lit '' chunks added.''), w))"
| "upload_loop e url key total_chunks (f # fs) w =
     (case py_open e (name f) w of
        (Inl x, w1) \<Rightarrow> (Inl x, w1)
      | (Inr fh, w1) \<Rightarrow>
          (case http_post e (upload_request url key f fh) w1 of
             (Inl x, w2) \<Rightarrow> (Inl x, w2)
           | (Inr r, w2) \<Rightarrow>
               if status_code r \<noteq> 200
               then (Inr (CROSS_MARK # lit '' Upload failed for '' @ name f @ lit '': '' @
                          resp_text r), w2)
               else
                 (case resp_json r of
                    Inl x \<Rightarrow> (Inl x, w2)
                  | Inr data \<Rightarrow>
                      (case get_default data (lit ''chunks_added'') (JInt 0) of
                         Inl x \<Rightarrow> (Inl x, w2)
                       | Inr v \<Rightarrow>
                           (case add_chunks e total_chunks v of
                              Inl x \<Rightarrow> (Inl x, w2)
                            | Inr t \<Rightarrow> upload_loop e url key t fs w2)))))"

definition upload_file :: "env \<Rightarrow> gfile list option \<Rightarrow> world \<Rightarrow> (exc + pystr) \<times> world" where
  "upload_file e files w =
     (case files of
        None \<Rightarrow> (Inr (lit ''No file selected.''), w)
      | Some fs \<Rightarrow>
          if fs = [] then (Inr (lit ''No file selected.''), w)
          else
            (let (b, w1) = get_backend w;
                 url = b @ lit ''/api/upload'';
                 (key, w2) = get_license w1
             in if key = [] then (Inl (GrError (lit ''Save a license key first.'')), w2)
                else upload_loop e url key (PyInt 0) fs w2))"

text \<open>
  \<open>chat_try\<close> is the body of the \<open>try\<close> block of \<open>chat\<close> from the outcome of
  \<open>requests.post\<close> on. The answer is handed on as decoded, so the first component of
  the result is a JSON value; the messages built by the client are strings.
\<close>

definition chat_try :: "exc + response \<Rightarrow> exc + json \<times> pystr" where
  "chat_try res =
     (case res of
        Inl x \<Rightarrow> Inl x
      | Inr r \<Rightarrow>
          (case raise_for_status r of
             Inl x \<Rightarrow> Inl x
           | Inr _ \<Rightarrow>
               (case resp_json r of
                  Inl x \<Rightarrow> Inl x
                | Inr data \<Rightarrow>
                    (case getitem data (lit ''answer'') of
                       Inl x \<Rightarrow> Inl x
                     | Inr answer \<Rightarrow>
                         (case get_default data (lit ''citations'') (JArr []) of
                            Inl x \<Rightarrow> Inl x
                          | Inr cs \<Rightarrow>
                              (case join_json (lit '', '') cs of
                                 Inl x \<Rightarrow> Inl x
                               | Inr joined \<Rightarrow>
                                   Inr (answer, lit ''Citations: '' @ joined)))))))"

definition chat :: "env \<Rightarrow> pystr \<Rightarrow> pystr \<Rightarrow> world \<Rightarrow> (exc + json \<times> pystr) \<times> world" where
  "chat e msg mode w =
     (let (b, w1) = get_backend w;
          url = b @ lit ''/api/chat'';
          (key, w2) = get_license w1
      in if key = [] then (Inl (GrError (lit ''Save a license key first.'')), w2)
         else
           (let (res, w3) =
                  http_post e
                    (Request url
                       (JsonBody [(lit ''key'', JStr key), (lit ''message'', JStr msg),
                                  (lit ''mode'', JStr mode)])
                       120) w2
            in (case chat_try res of
                  Inl x \<Rightarrow> Inr (JStr (CROSS_MARK # 32 # exc_str e x), [])
                | Inr p \<Rightarrow> Inr p,
                w3)))"

section \<open>Export to a workbook\<close>

text \<open>
  A worksheet is its title and its rows, a workbook the list of its sheets. Appending a
  row binds each string to a cell: the library cuts it at 32767 characters and raises
  \<open>IllegalCharacterError\<close> when it holds a control character other than tab, line feed
  and carriage return. \<open>str.splitlines\<close> breaks a string at line feed, carriage return
  (with a following line feed), U+000B, U+000C, U+001C, U+001D, U+001E, U+0085, U+2028
  and U+2029, and yields no empty last line.
\<close>

record sheet =
  title :: pystr
  rows :: "pystr list list"

type_synonym workbook = "sheet list"

definition linebreak :: "nat \<Rightarrow> bool" where
  "linebreak c \<longleftrightarrow>
     (10 \<le> c \<and> c \<le> 13) \<or> (28 \<le> c \<and> c \<le> 30) \<or> c = 133 \<or> c = 8232 \<or> c = 8233"

fun splitlines_from :: "pystr \<Rightarrow> pystr \<Rightarrow> pystr list" where
  "splitlines_from cur [] = (if cur = [] then [] else [cur])"
| "splitlines_from cur [c] = (if linebreak c then [cur] else [cur @ [c]])"
| "splitlines_from cur (c # d # s) =
     (if c = 13 \<and> d = 10 then cur # splitlines_from [] s
      else if linebreak c then cur # splitlines_from [] (d # s)
      else splitlines_from (cur @ [c]) (d # s))"

definition splitlines :: "pystr \<Rightarrow> pystr list" where
  "splitlines s = splitlines_from [] s"

definition illegal_character :: "nat \<Rightarrow> bool" where
  "illegal_character c \<longleftrightarrow> c \<le> 8 \<or> c = 11 \<or> c = 12 \<or> (14 \<le> c \<and> c \<le> 31)"

definition check_string :: "pystr \<Rightarrow> exc + pystr" where
  "check_string s =
     (let v = take 32767 s
      in if list_ex illegal_character v then Inl IllegalCharacterError else Inr v)"

fun check_cells :: "pystr list \<Rightarrow> exc + pystr list" where
  "check_cells [] = Inr []"
| "check_cells (c # cs) =
     (case check_string c of
        Inl x \<Rightarrow> Inl x
      | Inr v \<Rightarrow> (case check_cells cs of Inl x \<Rightarrow> Inl x | Inr vs \<Rightarrow> Inr (v # vs)))"

definition append_row :: "sheet \<Rightarrow> pystr list \<Rightarrow> exc + sheet" where
  "append_row ws cells =
     (case check_cells cells of
        Inl x \<Rightarrow> Inl x
      | Inr vs \<Rightarrow> Inr (ws\<lparr>rows := rows ws @ [vs]\<rparr>))"

fun append_lines :: "sheet \<Rightarrow> pystr list \<Rightarrow> exc + sheet" where
  "append_lines ws [] = Inr ws"
| "append_lines ws (line # ls) =
     (case append_row ws [line] of Inl x \<Rightarrow> Inl x | Inr ws' \<Rightarrow> append_lines ws' ls)"

definition headers :: "pystr list" where
  "headers =
     [lit ''Control No'', lit ''Control Name'', lit ''Question'',
      lit ''Example how to demonstrate question'', lit ''Implementation'', lit ''Evidence'',
      lit ''C'', lit ''NC'', lit ''OFI'', lit ''NA'', lit ''Recommendations'']"

text \<open>
  \<open>export_xlsx data_dir now content\<close> returns the path of the file and the workbook saved
  there; \<open>data_dir\<close> is the text of \<open>DATA_DIR\<close> and \<open>now\<close> the time stamp that
  \<open>time.strftime\<close> gives.
\<close>

definition export_xlsx :: "pystr \<Rightarrow> pystr \<Rightarrow> pystr \<Rightarrow> exc + pystr \<times> workbook" where
  "export_xlsx data_dir now content =
     (let out = data_dir @ lit ''/'' @ lit ''export_'' @ now @ lit ''.xlsx'';
          ws1 = \<lparr>title = lit ''Findings'', rows = []\<rparr>
      in case append_row ws1 headers of
           Inl x \<Rightarrow> Inl x
         | Inr ws1 \<Rightarrow>
             (case append_row \<lparr>title = lit ''Output'', rows = []\<rparr> [lit ''Output''] of
                Inl x \<Rightarrow> Inl x
              | Inr ws2 \<Rightarrow>
                  (case append_lines ws2
                          (if splitlines content = [] then [[]] else splitlines content) of
                     Inl x \<Rightarrow> Inl x
                   | Inr ws2 \<Rightarrow> Inr (out, [ws1, ws2]))))"

section \<open>Observing the trace\<close>

text \<open>\<open>posts l\<close> lists, in order, the requests of the calls of \<open>requests.post\<close> in \<open>l\<close>.\<close>

fun posts :: "event list \<Rightarrow> request list" where
  "posts [] = []"
| "posts (Post r # l) = r # posts l"
| "posts (_ # l) = posts l"

text \<open>
  The outcome of the one call of \<open>requests.post\<close> that \<open>check_license\<close> and \<open>chat\<close> make
  when a key is stored: the call comes after the two settings reads.
\<close>

definition license_reply :: "env \<Rightarrow> world \<Rightarrow> exc + response" where
  "license_reply e w =
     post e (log w @ [Read BACKEND_FILE, Read LICENSE_FILE])
       (Request (fst (get_backend w) @ lit ''/api/license/verify'')
          (JsonBody [(lit ''key'', JStr (fst (get_license w)))]) 15)"

definition chat_reply :: "env \<Rightarrow> pystr \<Rightarrow> pystr \<Rightarrow> world \<Rightarrow> exc + response" where
  "chat_reply e msg mode w =
     post e (log w @ [Read BACKEND_FILE, Read LICENSE_FILE])
       (Request (fst (get_backend w) @ lit ''/api/chat'')
          (JsonBody [(lit ''key'', JStr (fst (get_license w))), (lit ''message'', JStr msg),
                     (lit ''mode'', JStr mode)]) 120)"








section \<open>Concrete states for the instances\<close>







definition json_response :: "int \<Rightarrow> json \<Rightarrow> response" where
  "json_response s data = \<lparr>status_code = s, resp_text = lit ''body'', resp_json = Inr data\<rparr>"

definition backend_json :: json where
  "backend_json =
     JObj [(lit ''plan'', JStr (lit ''pro'')), (lit ''quota_remaining'', JInt 5),
           (lit ''answer'', JStr (lit ''hi'')),
           (lit ''citations'', JArr [JStr (lit ''a.pdf''), JStr (lit ''b.pdf'')])]"

definition fixed_env :: "exc + response \<Rightarrow> env" where
  "fixed_env res =
     \<lparr>post = (\<lambda>l r. res),
      disk = (\<lambda>p. Inr []),
      exc_str = (\<lambda>x. lit ''error''),
      repr = (\<lambda>v. lit ''[]''),
      float_add = (\<lambda>x y. x),
      float_of_int = (\<lambda>i. Inl OverflowError)\<rparr>"

definition sample_env :: env where
  "sample_env = fixed_env (Inr (json_response 200 (JObj [])))"

definition sample_world :: world where
  "sample_world = \<lparr>backend_file = None, license_file = None, log = []\<rparr>"

definition licensed_world :: world where
  "licensed_world =
     \<lparr>backend_file = None, license_file = Some (lit ''abcdefgh''), log = []\<rparr>"

section \<open>Properties of the settings store\<close>

lemmas str_defs = lit_def strip_def lstrip_def rstrip_def isspace_def startswith_def

lemma rstrip_keeps_prefix:
  assumes "p \<noteq> []" "\<not> isspace (last p)"
  shows "rstrip (p @ s) = p @ rstrip s"
proof (cases "\<forall>x\<in>set (rev s). isspace x")
  case True
  then have "dropWhile isspace (rev s @ rev p) = dropWhile isspace (rev p)"
    by (intro dropWhile_append2) auto
  moreover have "dropWhile isspace (rev p) = rev p"
    using assms by (cases "rev p") (auto simp: last_rev hd_rev)
  moreover have "dropWhile isspace (rev s) = []"
    using True by simp
  ultimately show ?thesis by (simp add: rstrip_def)
next
  case False
  then have "dropWhile isspace (rev s @ rev p) = dropWhile isspace (rev s) @ rev p"
    by (auto simp: dropWhile_append1)
  then show ?thesis by (simp add: rstrip_def)
qed

text \<open>A string that begins with \<open>http\<close> still does after trimming.\<close>

lemma startswith_strip:
  assumes "startswith url (lit ''http'')"
  shows "startswith (strip url) (lit ''http'')"
proof -
  from assms obtain s where u: "url = lit ''http'' @ s"
    unfolding startswith_def by (metis append_take_drop_id)
  have l: "lstrip (lit ''http'' @ s) = lit ''http'' @ s"
    by (simp add: lstrip_def lit_def isspace_def)
  have "rstrip (lit ''http'' @ s) = lit ''http'' @ rstrip s"
    by (rule rstrip_keeps_prefix) (simp_all add: lit_def isspace_def)
  then show ?thesis
    by (simp add: strip_def l u startswith_def)
qed

text \<open>
  What \<open>save_backend\<close> does: it tests the text as entered, and a text that passes is
  trimmed and written.
\<close>

lemma save_backend_fails_iff:
  "fst (save_backend url w) =
     Inl (GrError (lit ''Enter a full URL, e.g., http://localhost:8000'')) \<longleftrightarrow>
   \<not> startswith url (lit ''http'')"
  by (simp add: save_backend_def write_text_def split: prod.splits)

lemma save_backend_accepts:
  "startswith url (lit ''http'') \<Longrightarrow> \<not> list_ex surrogate (strip url) \<Longrightarrow>
   save_backend url w =
     (Inr (CHECK_MARK # lit '' Saved''),
      w\<lparr>backend_file := Some (strip url), log := log w @ [Write BACKEND_FILE (strip url)]\<rparr>)"
  by (simp add: save_backend_def write_text_def set_file_def)

text \<open>
  C1. \<open>save_backend\<close> is to fail exactly when the trimmed URL does not begin with
  \<open>http\<close>. The URL \<open>http://localhost:8000\<close> entered after one space begins with
  \<open>http\<close> once trimmed, and \<open>save_backend\<close> raises on it and writes nothing: the test
  is made on the untrimmed text, while the text written is trimmed and \<open>save_license\<close>
  tests the trimmed key.
\<close>

theorem save_backend_leading_space:
  "startswith (strip (lit '' http://localhost:8000'')) (lit ''http'') \<and>
   save_backend (lit '' http://localhost:8000'') w =
     (Inl (GrError (lit ''Enter a full URL, e.g., http://localhost:8000'')), w)"
  by (simp add: save_backend_def str_defs)

text \<open>
  C6, as the code has it. For every key, \<open>save_license\<close> raises the validation error
  exactly when the trimmed key has fewer than 8 characters, and then the state (the
  license file included) is unchanged; otherwise, when the trimmed key holds no
  surrogate code point, the trimmed key is written to the license file and the success
  message is returned.
\<close>

theorem save_license_validates:
  "(fst (save_license key w) = Inl (GrError (lit ''License looks too short.'')) \<longleftrightarrow>
      length (strip key) < 8) \<and>
   (length (strip key) < 8 \<longrightarrow>
      save_license key w = (Inl (GrError (lit ''License looks too short.'')), w)) \<and>
   (\<not> length (strip key) < 8 \<and> \<not> list_ex surrogate (strip key) \<longrightarrow>
      save_license key w =
        (Inr (CHECK_MARK # lit '' Saved''),
         w\<lparr>license_file := Some (strip key),
           log := log w @ [Write LICENSE_FILE (strip key)]\<rparr>))"
  by (simp add: save_license_def write_text_def set_file_def split: prod.splits)

theorem save_license_validates_witness:
  "save_license (lit '' abc  '') sample_world =
     (Inl (GrError (lit ''License looks too short.'')), sample_world) \<and>
   save_license (lit '' abcdefgh '') sample_world =
     (Inr (CHECK_MARK # lit '' Saved''),
      sample_world\<lparr>license_file := Some (lit ''abcdefgh''),
        log := [Write LICENSE_FILE (lit ''abcdefgh'')]\<rparr>)"
  using save_license_validates [of "lit '' abc  ''" sample_world]
    save_license_validates [of "lit '' abcdefgh ''" sample_world]
  by (simp add: str_defs surrogate_def sample_world_def)

text \<open>
  A key of trimmed length 8 that ends in the lone surrogate U+D800 passes the length
  test and cannot be encoded: \<open>save_license\<close> raises \<open>UnicodeEncodeError\<close>, returns no
  success, and the license file, which held a key, is left empty.
\<close>

theorem save_license_lone_surrogate:
  "\<not> length (strip (lit ''abcdefg'' @ [55296])) < 8 \<and>
   license_file licensed_world = Some (lit ''abcdefgh'') \<and>
   save_license (lit ''abcdefg'' @ [55296]) licensed_world =
     (Inl UnicodeEncodeError,
      licensed_world\<lparr>license_file := Some [], log := [Write LICENSE_FILE []]\<rparr>)"
  by (simp add: save_license_def write_text_def set_file_def str_defs surrogate_def
      licensed_world_def)

text \<open>
  C7. For every URL that does not begin with \<open>http\<close>, as entered or after trimming,
  \<open>save_backend\<close> raises and leaves the state unchanged: the backend file holds what it
  held, and \<open>get_backend\<close> returns the same value before and after the call.
\<close>

theorem save_backend_rejects:
  assumes "\<not> startswith url (lit ''http'') \<or> \<not> startswith (strip url) (lit ''http'')"
  shows "save_backend url w =
           (Inl (GrError (lit ''Enter a full URL, e.g., http://localhost:8000'')), w) \<and>
         backend_file (snd (save_backend url w)) = backend_file w \<and>
         fst (get_backend (snd (save_backend url w))) = fst (get_backend w)"
proof -
  from assms have "\<not> startswith url (lit ''http'')"
    using startswith_strip by blast
  then show ?thesis by (simp add: save_backend_def)
qed

theorem save_backend_rejects_witness:
  "save_backend (lit ''ftp://host'') (sample_world\<lparr>backend_file := Some (lit ''http://b'')\<rparr>) =
     (Inl (GrError (lit ''Enter a full URL, e.g., http://localhost:8000'')),
      sample_world\<lparr>backend_file := Some (lit ''http://b'')\<rparr>)"
proof -
  have "\<not> startswith (lit ''ftp://host'') (lit ''http'')"
    by (simp add: lit_def startswith_def)
  then show ?thesis
    using save_backend_rejects [of "lit ''ftp://host''"] by blast
qed

text \<open>
  C9. From any state, \<open>save_license\<close> on \<open>abcdefgh\<close> succeeds and \<open>get_license\<close> then
  returns exactly \<open>abcdefgh\<close>; and while the backend file does not exist, \<open>get_backend\<close>
  returns exactly \<open>http://localhost:8000\<close>.
\<close>

theorem settings_round_trip:
  "fst (save_license (lit ''abcdefgh'') w) = Inr (CHECK_MARK # lit '' Saved'') \<and>
   fst (get_license (snd (save_license (lit ''abcdefgh'') w))) = lit ''abcdefgh'' \<and>
   (backend_file w = None \<longrightarrow> fst (get_backend w) = lit ''http://localhost:8000'')"
  by (simp add: save_license_def write_text_def set_file_def surrogate_def
      get_license_def get_backend_def str_defs)

theorem settings_round_trip_witness:
  "fst (get_license (snd (save_license (lit ''abcdefgh'') sample_world))) = lit ''abcdefgh'' \<and>
   fst (get_backend sample_world) = lit ''http://localhost:8000''"
proof -
  have "backend_file sample_world = None"
    by (simp add: sample_world_def)
  then show ?thesis
    using settings_round_trip [of sample_world] by blast
qed

section \<open>Properties of the upload gate\<close>

lemma posts_append: "posts (a @ b) = posts a @ posts b"
  by (induction a rule: posts.induct) simp_all

text \<open>
  C10. Called with no file list or with an empty one, \<open>upload_file\<close> returns the message
  \<open>No file selected.\<close> and raises nothing. The state comes back as it was, trace
  included: neither settings file has been read and no request has been issued. This
  holds in every state, also when no license key is stored.
\<close>

theorem upload_file_no_files:
  assumes "files = None \<or> files = Some []"
  shows "upload_file e files w = (Inr (lit ''No file selected.''), w)"
  using assms by (auto simp: upload_file_def)

theorem upload_file_no_files_witness:
  "upload_file sample_env None sample_world = (Inr (lit ''No file selected.''), sample_world) \<and>
   upload_file sample_env (Some []) sample_world = (Inr (lit ''No file selected.''), sample_world) \<and>
   fst (get_license sample_world) = []"
  using upload_file_no_files [of None sample_env sample_world]
    upload_file_no_files [of "Some []" sample_env sample_world]
  by (simp add: get_license_def sample_world_def)

text \<open>
  C4. When \<open>get_license\<close> returns the empty string, \<open>upload_file\<close> on a non-empty list of
  files raises the error \<open>Save a license key first.\<close> after reading the two settings
  files and nothing else: the requests issued are those issued before the call.
\<close>

theorem upload_file_without_key:
  assumes "fs \<noteq> []" and "fst (get_license w) = []"
  shows "upload_file e (Some fs) w =
           (Inl (GrError (lit ''Save a license key first.'')),
            w\<lparr>log := log w @ [Read BACKEND_FILE, Read LICENSE_FILE]\<rparr>) \<and>
         posts (log (snd (upload_file e (Some fs) w))) = posts (log w)"
proof -
  have k: "fst (get_license (snd (get_backend w))) = []"
    using assms(2) by (simp add: get_license_def get_backend_def)
  have r: "upload_file e (Some fs) w =
           (Inl (GrError (lit ''Save a license key first.'')),
            w\<lparr>log := log w @ [Read BACKEND_FILE, Read LICENSE_FILE]\<rparr>)"
    using assms(1) k
    by (simp add: upload_file_def get_license_def get_backend_def split: prod.splits)
  show ?thesis
    unfolding r by (simp add: posts_append)
qed

theorem upload_file_without_key_witness:
  "upload_file sample_env (Some [GFile (lit ''/tmp/a.pdf'')]) sample_world =
     (Inl (GrError (lit ''Save a license key first.'')),
      sample_world\<lparr>log := [Read BACKEND_FILE, Read LICENSE_FILE]\<rparr>) \<and>
   posts (log (snd (upload_file sample_env (Some [GFile (lit ''/tmp/a.pdf'')]) sample_world))) = []"
proof -
  have "fst (get_license sample_world) = []"
    by (simp add: get_license_def sample_world_def)
  then show ?thesis
    using upload_file_without_key [of "[GFile (lit ''/tmp/a.pdf'')]" sample_world sample_env]
    by (simp add: sample_world_def)
qed

section \<open>Properties of the export\<close>

lemma check_headers: "check_cells headers = Inr headers"
  by (simp add: headers_def check_string_def lit_def illegal_character_def)

lemma export_xlsx_empty_eq:
  "export_xlsx data_dir now [] =
     Inr (data_dir @ lit ''/export_'' @ now @ lit ''.xlsx'',
          [\<lparr>title = lit ''Findings'', rows = [headers]\<rparr>,
           \<lparr>title = lit ''Output'', rows = [[lit ''Output''], [[]]]\<rparr>])"
proof -
  have o: "check_string (lit ''Output'') = Inr (lit ''Output'')"
    by (simp add: check_string_def lit_def illegal_character_def)
  have n: "check_string [] = Inr []"
    by (simp add: check_string_def)
  have p: "lit ''/'' @ lit ''export_'' @ now @ lit ''.xlsx'' = lit ''/export_'' @ now @ lit ''.xlsx''"
    by (simp add: lit_def)
  show ?thesis
    by (simp add: export_xlsx_def splitlines_def append_row_def check_headers o n p Let_def)
qed

text \<open>
  C2. On the empty string \<open>export_xlsx\<close> saves a workbook of two sheets. The sheet
  \<open>Findings\<close> holds one row, the 11 fixed headers, and no row of data. The sheet
  \<open>Output\<close> holds its heading row \<open>Output\<close> and, after it, one row holding the empty
  string: exactly one row of the sheet holds the empty string.
\<close>

theorem export_xlsx_empty:
  "\<exists>findings output.
     export_xlsx data_dir now [] =
       Inr (data_dir @ lit ''/export_'' @ now @ lit ''.xlsx'', [findings, output]) \<and>
     title findings = lit ''Findings'' \<and> rows findings = [headers] \<and> length headers = 11 \<and>
     title output = lit ''Output'' \<and> rows output = [[lit ''Output''], [[]]] \<and>
     length (filter (\<lambda>row. row = [[]]) (rows output)) = 1"
proof -
  have h: "length headers = 11"
    by (simp add: headers_def)
  have f: "length (filter (\<lambda>row. row = [[]]) [[lit ''Output''], [[]::nat list]]) = 1"
    by (simp add: lit_def)
  show ?thesis
    unfolding export_xlsx_empty_eq using h f by simp
qed

section \<open>Properties of the backend client\<close>

lemma licensed_key: "fst (get_license licensed_world) = lit ''abcdefgh''"
  by (simp add: get_license_def licensed_world_def str_defs)

lemma licensed_key_nonempty: "fst (get_license licensed_world) \<noteq> []"
  by (simp add: licensed_key lit_def)

lemma fixed_reply: "license_reply (fixed_env res) w = res"
  by (simp add: license_reply_def fixed_env_def)

lemma fixed_chat_reply: "chat_reply (fixed_env res) msg mode w = res"
  by (simp add: chat_reply_def fixed_env_def)

lemma fixed_exc_str: "exc_str (fixed_env res) x = lit ''error''"
  by (simp add: fixed_env_def)

lemma str_int_5: "str_int 5 = lit ''5''"
  by (simp add: str_int_def str_nat.simps lit_def)

lemma check_license_with_key:
  assumes "fst (get_license w) \<noteq> []"
  shows "fst (check_license e w) =
           (case check_license_try e (license_reply e w) of
              Inl x \<Rightarrow> Inr (CROSS_MARK # 32 # exc_str e x)
            | Inr s \<Rightarrow> Inr s)"
  using assms
  by (simp add: check_license_def license_reply_def get_license_def get_backend_def
      http_post_def Let_def split: prod.splits)

lemma check_license_total: "\<exists>s. fst (check_license e w) = Inr s"
proof (cases "fst (get_license w) = []")
  case True
  then show ?thesis
    by (simp add: check_license_def get_license_def get_backend_def Let_def split: prod.splits)
next
  case False
  then show ?thesis
    by (simp add: check_license_with_key split: sum.splits)
qed

text \<open>
  C8, as the code has it. \<open>check_license\<close> never raises. With no stored key it returns
  the message \<open>No license saved\<close> after the two settings reads, without a request. With
  a key, when \<open>requests.post\<close> raises, or the response has a status from 400 to 599,
  it returns the cross mark followed by the text of the exception; when the response has
  any other status and decodes to an object that has \<open>plan\<close> and \<open>quota_remaining\<close>,
  it returns the status line built from those two values.
\<close>

theorem check_license_outcomes:
  "(\<exists>s. fst (check_license e w) = Inr s) \<and>
   (fst (get_license w) = [] \<longrightarrow>
      check_license e w =
        (Inr (CROSS_MARK # lit '' No license saved''),
         w\<lparr>log := log w @ [Read BACKEND_FILE, Read LICENSE_FILE]\<rparr>)) \<and>
   (fst (get_license w) \<noteq> [] \<longrightarrow>
      (\<forall>x. license_reply e w = Inl x \<longrightarrow>
         fst (check_license e w) = Inr (CROSS_MARK # 32 # exc_str e x)) \<and>
      (\<forall>r. license_reply e w = Inr r \<and> 400 \<le> status_code r \<and> status_code r < 600 \<longrightarrow>
         fst (check_license e w) =
           Inr (CROSS_MARK # 32 # exc_str e (HTTPError (status_code r)))) \<and>
      (\<forall>r kvs plan quota.
         license_reply e w = Inr r \<and> \<not> (400 \<le> status_code r \<and> status_code r < 600) \<and>
         resp_json r = Inr (JObj kvs) \<and> map_of kvs (lit ''plan'') = Some plan \<and>
         map_of kvs (lit ''quota_remaining'') = Some quota \<longrightarrow>
         fst (check_license e w) =
           Inr (CHECK_MARK # lit '' Plan: '' @ format_json e plan @
                lit '' | Remaining: '' @ format_json e quota)))"
proof (intro conjI impI allI)
  show "\<exists>s. fst (check_license e w) = Inr s"
    by (rule check_license_total)
next
  assume "fst (get_license w) = []"
  then show "check_license e w =
        (Inr (CROSS_MARK # lit '' No license saved''),
         w\<lparr>log := log w @ [Read BACKEND_FILE, Read LICENSE_FILE]\<rparr>)"
    by (simp add: check_license_def get_license_def get_backend_def Let_def split: prod.splits)
next
  fix x
  assume "fst (get_license w) \<noteq> []" "license_reply e w = Inl x"
  then show "fst (check_license e w) = Inr (CROSS_MARK # 32 # exc_str e x)"
    by (simp add: check_license_with_key check_license_try_def)
next
  fix r
  assume "fst (get_license w) \<noteq> []"
    "license_reply e w = Inr r \<and> 400 \<le> status_code r \<and> status_code r < 600"
  then show "fst (check_license e w) =
           Inr (CROSS_MARK # 32 # exc_str e (HTTPError (status_code r)))"
    by (simp add: check_license_with_key check_license_try_def raise_for_status_def)
next
  fix r kvs plan quota
  assume "fst (get_license w) \<noteq> []"
    "license_reply e w = Inr r \<and> \<not> (400 \<le> status_code r \<and> status_code r < 600) \<and>
         resp_json r = Inr (JObj kvs) \<and> map_of kvs (lit ''plan'') = Some plan \<and>
         map_of kvs (lit ''quota_remaining'') = Some quota"
  then show "fst (check_license e w) =
           Inr (CHECK_MARK # lit '' Plan: '' @ format_json e plan @
                lit '' | Remaining: '' @ format_json e quota)"
    by (auto simp: check_license_with_key check_license_try_def raise_for_status_def getitem_def)
qed

theorem check_license_outcomes_witness:
  "check_license sample_env sample_world =
     (Inr (CROSS_MARK # lit '' No license saved''),
      sample_world\<lparr>log := [Read BACKEND_FILE, Read LICENSE_FILE]\<rparr>) \<and>
   fst (check_license (fixed_env (Inl (RequestException (lit ''timed out'')))) licensed_world) =
     Inr (CROSS_MARK # lit '' error'') \<and>
   fst (check_license (fixed_env (Inr (json_response 500 JNull))) licensed_world) =
     Inr (CROSS_MARK # lit '' error'') \<and>
   fst (check_license (fixed_env (Inr (json_response 200 backend_json))) licensed_world) =
     Inr (CHECK_MARK # lit '' Plan: pro | Remaining: 5'')"
proof -
  have n: "fst (get_license sample_world) = []"
    by (simp add: get_license_def sample_world_def)
  have a: "check_license sample_env sample_world =
     (Inr (CROSS_MARK # lit '' No license saved''),
      sample_world\<lparr>log := [Read BACKEND_FILE, Read LICENSE_FILE]\<rparr>)"
    using check_license_outcomes [of sample_env sample_world] n
    by (simp add: sample_world_def)
  have b: "fst (check_license (fixed_env (Inl (RequestException (lit ''timed out'')))) licensed_world) =
     Inr (CROSS_MARK # lit '' error'')"
    using check_license_outcomes [of "fixed_env (Inl (RequestException (lit ''timed out'')))" licensed_world]
      licensed_key_nonempty
    by (simp add: fixed_reply) (simp add: fixed_env_def lit_def)
  have c: "fst (check_license (fixed_env (Inr (json_response 500 JNull))) licensed_world) =
     Inr (CROSS_MARK # lit '' error'')"
    using check_license_outcomes [of "fixed_env (Inr (json_response 500 JNull))" licensed_world]
      licensed_key_nonempty
    by (simp add: fixed_reply json_response_def) (simp add: fixed_env_def lit_def)
  have d: "fst (check_license (fixed_env (Inr (json_response 200 backend_json))) licensed_world) =
     Inr (CHECK_MARK # lit '' Plan: pro | Remaining: 5'')"
    using check_license_outcomes [of "fixed_env (Inr (json_response 200 backend_json))" licensed_world]
      licensed_key_nonempty
    by (simp add: fixed_reply json_response_def backend_json_def)
      (simp add: lit_def format_json_def str_int_def str_nat.simps)
  from a b c d show ?thesis by blast
qed

text \<open>
  The status that decides is the range 400 to 599 of \<open>raise_for_status\<close>, not the
  complement of 200 to 299: a response of status 300 that carries the two fields is
  reported as a valid plan.
\<close>

theorem check_license_status_300:
  "license_reply (fixed_env (Inr (json_response 300 backend_json))) licensed_world =
     Inr (json_response 300 backend_json) \<and>
   status_code (json_response 300 backend_json) = 300 \<and>
   fst (check_license (fixed_env (Inr (json_response 300 backend_json))) licensed_world) =
     Inr (CHECK_MARK # lit '' Plan: pro | Remaining: 5'') \<and>
   CHECK_MARK \<noteq> CROSS_MARK"
proof -
  have "check_license_try (fixed_env (Inr (json_response 300 backend_json)))
          (Inr (json_response 300 backend_json)) =
        Inr (CHECK_MARK # lit '' Plan: pro | Remaining: 5'')"
    by (simp add: check_license_try_def raise_for_status_def json_response_def
        backend_json_def getitem_def format_json_def str_int_5 lit_def)
  then show ?thesis
    by (simp add: check_license_with_key [OF licensed_key_nonempty] fixed_reply)
      (simp add: json_response_def CHECK_MARK_def CROSS_MARK_def)
qed

lemma chat_with_key:
  assumes "fst (get_license w) \<noteq> []"
  shows "fst (chat e msg mode w) =
           (case chat_try (chat_reply e msg mode w) of
              Inl x \<Rightarrow> Inr (JStr (CROSS_MARK # 32 # exc_str e x), [])
            | Inr p \<Rightarrow> Inr p)"
  using assms
  by (simp add: chat_def chat_reply_def get_license_def get_backend_def
      http_post_def Let_def split: prod.splits)

lemma str_items_strings: "str_items (map JStr cs) = Inr cs"
  by (induction cs) simp_all

text \<open>
  C5, as the code has it. With a key stored, for every message and mode: when anything
  in the \<open>try\<close> block raises, in particular when \<open>requests.post\<close> raises or the response
  has a status from 400 to 599 (such as 500), \<open>chat\<close> returns the pair of the cross mark
  followed by the text of the exception, and the empty string; when the response has
  any other status and decodes to an object with an \<open>answer\<close> and a list of strings
  \<open>citations\<close> (or none), it returns the answer and \<open>Citations: \<close> followed by the
  citations joined by a comma and a space.
\<close>

theorem chat_outcomes:
  "fst (get_license w) \<noteq> [] \<longrightarrow>
     (\<forall>x. chat_try (chat_reply e msg mode w) = Inl x \<longrightarrow>
        fst (chat e msg mode w) = Inr (JStr (CROSS_MARK # 32 # exc_str e x), [])) \<and>
     (\<forall>x. chat_reply e msg mode w = Inl x \<longrightarrow>
        fst (chat e msg mode w) = Inr (JStr (CROSS_MARK # 32 # exc_str e x), [])) \<and>
     (\<forall>r. chat_reply e msg mode w = Inr r \<and> 400 \<le> status_code r \<and> status_code r < 600 \<longrightarrow>
        fst (chat e msg mode w) =
          Inr (JStr (CROSS_MARK # 32 # exc_str e (HTTPError (status_code r))), [])) \<and>
     (\<forall>r kvs answer cs.
        chat_reply e msg mode w = Inr r \<and> \<not> (400 \<le> status_code r \<and> status_code r < 600) \<and>
        resp_json r = Inr (JObj kvs) \<and> map_of kvs (lit ''answer'') = Some answer \<and>
        (map_of kvs (lit ''citations'') = Some (JArr (map JStr cs)) \<or>
         map_of kvs (lit ''citations'') = None \<and> cs = []) \<longrightarrow>
        fst (chat e msg mode w) = Inr (answer, lit ''Citations: '' @ join (lit '', '') cs))"
proof (intro conjI impI allI)
  fix x
  assume "fst (get_license w) \<noteq> []" "chat_try (chat_reply e msg mode w) = Inl x"
  then show "fst (chat e msg mode w) = Inr (JStr (CROSS_MARK # 32 # exc_str e x), [])"
    by (simp add: chat_with_key)
next
  fix x
  assume "fst (get_license w) \<noteq> []" "chat_reply e msg mode w = Inl x"
  then show "fst (chat e msg mode w) = Inr (JStr (CROSS_MARK # 32 # exc_str e x), [])"
    by (simp add: chat_with_key chat_try_def)
next
  fix r
  assume "fst (get_license w) \<noteq> []"
    "chat_reply e msg mode w = Inr r \<and> 400 \<le> status_code r \<and> status_code r < 600"
  then show "fst (chat e msg mode w) =
          Inr (JStr (CROSS_MARK # 32 # exc_str e (HTTPError (status_code r))), [])"
    by (simp add: chat_with_key chat_try_def raise_for_status_def)
next
  fix r kvs answer cs
  assume k: "fst (get_license w) \<noteq> []"
    and h: "chat_reply e msg mode w = Inr r \<and> \<not> (400 \<le> status_code r \<and> status_code r < 600) \<and>
        resp_json r = Inr (JObj kvs) \<and> map_of kvs (lit ''answer'') = Some answer \<and>
        (map_of kvs (lit ''citations'') = Some (JArr (map JStr cs)) \<or>
         map_of kvs (lit ''citations'') = None \<and> cs = [])"
  then have "\<exists>v. get_default (JObj kvs) (lit ''citations'') (JArr []) = Inr v \<and>
      join_json (lit '', '') v = Inr (join (lit '', '') cs)"
    by (auto simp: get_default_def join_json_def iter_json_def str_items_strings)
  then obtain v where v: "get_default (JObj kvs) (lit ''citations'') (JArr []) = Inr v"
    "join_json (lit '', '') v = Inr (join (lit '', '') cs)"
    by blast
  from h have "raise_for_status r = Inr ()"
    by (auto simp: raise_for_status_def)
  with k h v show "fst (chat e msg mode w) = Inr (answer, lit ''Citations: '' @ join (lit '', '') cs)"
    by (simp add: chat_with_key chat_try_def getitem_def)
qed

theorem chat_outcomes_witness:
  "fst (chat (fixed_env (Inl (RequestException (lit ''timed out'')))) (lit ''q'') (lit ''draft'')
          licensed_world) = Inr (JStr (CROSS_MARK # lit '' error''), []) \<and>
   fst (chat (fixed_env (Inr (json_response 500 JNull))) (lit ''q'') (lit ''draft'')
          licensed_world) = Inr (JStr (CROSS_MARK # lit '' error''), []) \<and>
   fst (chat (fixed_env (Inr (json_response 200 JNull))) (lit ''q'') (lit ''draft'')
          licensed_world) = Inr (JStr (CROSS_MARK # lit '' error''), []) \<and>
   fst (chat (fixed_env (Inr (json_response 200 backend_json))) (lit ''q'') (lit ''draft'')
          licensed_world) = Inr (JStr (lit ''hi''), lit ''Citations: a.pdf, b.pdf'')"
proof -
  note c = chat_outcomes [THEN mp, OF licensed_key_nonempty]
  have sp: "CROSS_MARK # 32 # lit ''error'' = CROSS_MARK # lit '' error''"
    by (simp add: lit_def)
  have "fst (chat (fixed_env (Inl (RequestException (lit ''timed out'')))) (lit ''q'') (lit ''draft'')
          licensed_world) = Inr (JStr (CROSS_MARK # 32 # lit ''error''), [])"
    using c [of "fixed_env (Inl (RequestException (lit ''timed out'')))" "lit ''q''" "lit ''draft''",
        THEN conjunct2, THEN conjunct1, rule_format, of "RequestException (lit ''timed out'')"]
    by (simp add: fixed_chat_reply fixed_exc_str)
  moreover have "fst (chat (fixed_env (Inr (json_response 500 JNull))) (lit ''q'') (lit ''draft'')
          licensed_world) = Inr (JStr (CROSS_MARK # 32 # lit ''error''), [])"
    using c [of "fixed_env (Inr (json_response 500 JNull))" "lit ''q''" "lit ''draft''",
        THEN conjunct2, THEN conjunct2, THEN conjunct1, rule_format, of "json_response 500 JNull"]
    by (simp add: fixed_chat_reply fixed_exc_str json_response_def)
  moreover have "fst (chat (fixed_env (Inr (json_response 200 JNull))) (lit ''q'') (lit ''draft'')
          licensed_world) = Inr (JStr (CROSS_MARK # 32 # lit ''error''), [])"
    using c [of "fixed_env (Inr (json_response 200 JNull))" "lit ''q''" "lit ''draft''",
        THEN conjunct1, rule_format, of TypeError]
    by (simp add: fixed_chat_reply fixed_exc_str json_response_def chat_try_def
        raise_for_status_def getitem_def)
  moreover have "fst (chat (fixed_env (Inr (json_response 200 backend_json))) (lit ''q'') (lit ''draft'')
          licensed_world) =
        Inr (JStr (lit ''hi''), lit ''Citations: '' @ join (lit '', '') [lit ''a.pdf'', lit ''b.pdf''])"
    using c [of "fixed_env (Inr (json_response 200 backend_json))" "lit ''q''" "lit ''draft''",
        THEN conjunct2, THEN conjunct2, THEN conjunct2, rule_format,
        of "json_response 200 backend_json"
          "[(lit ''plan'', JStr (lit ''pro'')), (lit ''quota_remaining'', JInt 5),
           (lit ''answer'', JStr (lit ''hi'')),
           (lit ''citations'', JArr [JStr (lit ''a.pdf''), JStr (lit ''b.pdf'')])]"
          "JStr (lit ''hi'')" "[lit ''a.pdf'', lit ''b.pdf'']"]
    by (simp add: fixed_chat_reply json_response_def backend_json_def) (simp add: lit_def)
  ultimately show ?thesis
    by (simp add: sp) (simp add: lit_def)
qed

text \<open>
  Here too a status outside 200 to 299 need not be an error: a response of status 300
  that carries an answer is returned as the answer, with no error mark.
\<close>

theorem chat_status_300:
  "chat_reply (fixed_env (Inr (json_response 300 backend_json))) (lit ''q'') (lit ''answer'')
     licensed_world = Inr (json_response 300 backend_json) \<and>
   status_code (json_response 300 backend_json) = 300 \<and>
   fst (chat (fixed_env (Inr (json_response 300 backend_json))) (lit ''q'') (lit ''answer'')
     licensed_world) = Inr (JStr (lit ''hi''), lit ''Citations: a.pdf, b.pdf'') \<and>
   hd (lit ''hi'') \<noteq> CROSS_MARK \<and> lit ''Citations: a.pdf, b.pdf'' \<noteq> []"
proof -
  have "chat_try (Inr (json_response 300 backend_json)) =
        Inr (JStr (lit ''hi''), lit ''Citations: a.pdf, b.pdf'')"
    by (simp add: chat_try_def raise_for_status_def json_response_def
        backend_json_def getitem_def get_default_def join_json_def iter_json_def lit_def)
  then show ?thesis
    by (simp add: chat_with_key [OF licensed_key_nonempty] chat_reply_def fixed_env_def)
      (simp add: json_response_def lit_def CROSS_MARK_def)
qed

section \<open>Properties of the upload loop\<close>





















end
